theory Spec2Isabelle
  imports Complex_Main
begin

section \<open>Grouped request logging: the middleware of gcp\_logging.py\<close>

text \<open>
  The module keeps four pieces of process-wide mutable state: the handler list of the
  root logger, the list \<open>MLOGLEVELS\<close> of tracked level names, and the two transports.
  They are gathered in one record that every operation takes and returns. Level names
  are Python strings, and the tracked list holds them as strings, because the parent
  severity is computed by comparing those strings.
\<close>

subsection \<open>Log levels\<close>

text \<open>
  The five level constants of Python's logging module that have a severity in the log
  sink: \<open>level_no\<close> is the number of the constant (\<open>logging.INFO\<close> is 20) and
  \<open>level_str\<close> the name that \<open>logging.getLevelName\<close> gives for it.
\<close>

datatype levelname = DEBUG | INFO | WARNING | ERROR | CRITICAL

fun level_no :: "levelname \<Rightarrow> int" where
  "level_no DEBUG = 10"
| "level_no INFO = 20"
| "level_no WARNING = 30"
| "level_no ERROR = 40"
| "level_no CRITICAL = 50"

fun level_str :: "levelname \<Rightarrow> string" where
  "level_str DEBUG = ''DEBUG''"
| "level_str INFO = ''INFO''"
| "level_str WARNING = ''WARNING''"
| "level_str ERROR = ''ERROR''"
| "level_str CRITICAL = ''CRITICAL''"

subsection \<open>Data\<close>

text \<open>
  \<open>size_val\<close> is the value of \<open>x or 0\<close> for a header value \<open>x\<close>: the header's
  text, or the integer 0 when the header is missing or empty.
\<close>

datatype size_val = SizeStr string | SizeInt int

datatype resource = Resource string "(string \<times> string option) list"

record http_request =
  requestMethod :: string
  requestUrl :: string
  requestSize :: size_val
  remoteIp :: string
  status :: int
  responseSize :: size_val
  latency :: string
  userAgent :: "string option"
  referer :: "string option"

text \<open>
  One call of a transport's \<open>send\<close>. The timestamp argument, a reading of the clock
  at the moment of the call, is left out.
\<close>

record log_entry =
  message :: "string option"
  severity :: string
  entry_resource :: resource
  labels :: "(string \<times> string) list option"
  trace :: string
  span_id :: "string option"
  entry_http_request :: "http_request option"

datatype exn = IndexError | AttributeError | FormatError string | DownstreamError string

text \<open>
  A log record as the handler sees it: its numeric level \<open>record.levelno\<close>, and what
  \<open>self.format(record)\<close> does with it, which is to return a text or to raise (a message
  that does not fit its arguments).
\<close>

record log_record =
  levelno :: int
  formatted :: "exn + string"

text \<open>
  A \<open>GCPHandler\<close> object. \<open>hid\<close> stands for the object's identity: the root logger
  removes a handler by identity, and two handlers of the same trace are different
  objects.
\<close>

record GCPHandler =
  hid :: nat
  h_trace :: string
  h_span :: "string option"

record request =
  req_method :: string
  full_path :: string
  META :: "string \<Rightarrow> string option"

record response =
  status_code :: int
  resp_headers :: "string \<Rightarrow> string option"

text \<open>The module-level constants, fixed when the module is loaded.\<close>

record config =
  PROJECT :: string
  REMOTE_IP_HEADER :: string
  USE_X_HTTP_CLOUD_CONTEXT :: bool
  LOGGER_level :: int
  RESOURCE :: resource

record state =
  handlers :: "GCPHandler list"
  MLOGLEVELS :: "string list"
  TRANSPORT_CHILD :: "log_entry list"
  TRANSPORT_PARENT :: "log_entry list"
  next_hid :: nat

definition LABELS :: "(string \<times> string) list option" where
  "LABELS = None"

subsection \<open>The transports\<close>

text \<open>
  Modelled from the spec: \<open>BackgroundThreadTransport.send\<close> (module
  \<open>background_thread\<close>) constructs a log entry from its arguments and enqueues it,
  returning at once and never raising. A transport is the sequence of the entries
  enqueued so far, oldest first.
\<close>

definition send :: "log_entry \<Rightarrow> log_entry list \<Rightarrow> log_entry list" where
  "send e q = q @ [e]"

subsection \<open>Python primitives used by the middleware\<close>

text \<open>\<open>s.split(c)\<close> for a one-character separator: the result is never empty.\<close>

fun split_on :: "char \<Rightarrow> string \<Rightarrow> string list" where
  "split_on c [] = [[]]"
| "split_on c (x # xs) =
     (if x = c then [] # split_on c xs
      else (case split_on c xs of [] \<Rightarrow> [[x]] | w # ws \<Rightarrow> (x # w) # ws))"

text \<open>\<open>xs[i]\<close> for \<open>i \<ge> 0\<close>: raises \<open>IndexError\<close> out of range.\<close>

definition py_index :: "'a list \<Rightarrow> nat \<Rightarrow> exn + 'a" where
  "py_index xs i = (if i < length xs then Inr (xs ! i) else Inl IndexError)"

text \<open>\<open>a < b\<close> on strings: lexicographic, by code point.\<close>

fun str_less :: "string \<Rightarrow> string \<Rightarrow> bool" where
  "str_less [] [] = False"
| "str_less [] (y # ys) = True"
| "str_less (x # xs) [] = False"
| "str_less (x # xs) (y # ys) =
     (if (of_char x :: nat) < of_char y then True
      else if (of_char y :: nat) < of_char x then False
      else str_less xs ys)"

text \<open>\<open>min\<close> of a non-empty list of strings, given as head and tail: the first smallest.\<close>

definition py_min :: "string \<Rightarrow> string list \<Rightarrow> string" where
  "py_min x xs = foldl (\<lambda>m y. if str_less y m then y else m) x xs"

text \<open>\<open>x or 0\<close> for an optional header value.\<close>

fun or0 :: "string option \<Rightarrow> size_val" where
  "or0 None = SizeInt 0"
| "or0 (Some []) = SizeInt 0"
| "or0 (Some (c # cs)) = SizeStr (c # cs)"

text \<open>\<open>d[k]\<close> guarded by \<open>if d.get(k)\<close>: the value when present and non-empty.\<close>

fun if_truthy :: "string option \<Rightarrow> string option" where
  "if_truthy None = None"
| "if_truthy (Some []) = None"
| "if_truthy (Some (c # cs)) = Some (c # cs)"

text \<open>Rounding a real to the nearest integer, a tie to the even one.\<close>

definition round_half_even :: "real \<Rightarrow> int" where
  "round_half_even x =
     (let f = \<lfloor>x\<rfloor>; d = x - of_int f
      in if d < 1 / 2 then f else if 1 / 2 < d then f + 1
         else if even f then f else f + 1)"

function dec_digits :: "nat \<Rightarrow> string" where
  "dec_digits n =
     (if n < 10 then [''0123456789'' ! n]
      else dec_digits (n div 10) @ [''0123456789'' ! (n mod 10)])"
  by pat_completeness auto
termination
  by (relation "measure (\<lambda>n. n)") auto

declare dec_digits.simps [simp del]

text \<open>
  \<open>"%.5f" % x\<close>: the decimal expansion of \<open>x\<close> with five digits after the point,
  rounded to nearest, ties to even, with a minus sign for a negative \<open>x\<close>. A float is
  taken as the real number it denotes.
\<close>

definition py_format_5f :: "real \<Rightarrow> string" where
  "py_format_5f x =
     (let n = nat (round_half_even (\<bar>x\<bar> * 100000));
          frac = dec_digits (n mod 100000)
      in (if x < 0 then ''-'' else []) @ dec_digits (n div 100000) @ ''.'' @
         replicate (5 - length frac) (CHR ''0'') @ frac)"

text \<open>
  \<open>a - b\<close> on floats (IEEE 754 binary64, rounding to nearest, ties to even): the
  exact difference rounded to 53 significant bits, or to a multiple of \<open>2 ^ -1074\<close>
  below the normal range. Clock readings are far from the overflow threshold, which is
  left out.
\<close>

definition round_to_float :: "real \<Rightarrow> real" where
  "round_to_float x =
     (if x = 0 then 0
      else (let q = 2 powi (max \<lfloor>log 2 \<bar>x\<bar>\<rfloor> (- 1022) - 52)
            in of_int (round_half_even (x / q)) * q))"

definition float_sub :: "real \<Rightarrow> real \<Rightarrow> real" where
  "float_sub a b = round_to_float (a - b)"

text \<open>The value of a string of decimal digits, to read a printed number back.\<close>

definition decimal_val :: "string \<Rightarrow> nat" where
  "decimal_val ds = foldl (\<lambda>a c. 10 * a + (of_char c - 48)) 0 ds"

text \<open>\<open>str(n)\<close> for an integer.\<close>

definition py_str_int :: "int \<Rightarrow> string" where
  "py_str_int n = (if n < 0 then ''-'' @ dec_digits (nat (- n)) else dec_digits (nat n))"

subsection \<open>Level names\<close>

text \<open>
  \<open>logging.getLevelName\<close> with the module's own table of names, which is where
  \<open>record.levelname\<close> comes from: a level without a name is called \<open>Level n\<close>.
\<close>

definition getLevelName :: "int \<Rightarrow> string" where
  "getLevelName n =
     (if n = 50 then ''CRITICAL'' else if n = 40 then ''ERROR''
      else if n = 30 then ''WARNING'' else if n = 20 then ''INFO''
      else if n = 10 then ''DEBUG'' else if n = 0 then ''NOTSET''
      else ''Level '' @ py_str_int n)"

definition levelname :: "log_record \<Rightarrow> string" where
  "levelname r = getLevelName (levelno r)"

text \<open>
  \<open>getattr(logging, name)\<close> for a level name: the module has an attribute for each of
  its level constants and none called \<open>Level n\<close>; \<open>None\<close> stands for the
  \<open>AttributeError\<close>.
\<close>

definition getattr_logging :: "string \<Rightarrow> int option" where
  "getattr_logging name =
     map_of [(''CRITICAL'', 50), (''FATAL'', 50), (''ERROR'', 40), (''WARNING'', 30),
             (''WARN'', 30), (''INFO'', 20), (''DEBUG'', 10), (''NOTSET'', 0)] name"

subsection \<open>GCPHandler.emit\<close>

definition child_entry :: "config \<Rightarrow> GCPHandler \<Rightarrow> log_record \<Rightarrow> string \<Rightarrow> log_entry" where
  "child_entry cfg h r msg =
     \<lparr>message = Some msg,
      severity = levelname r,
      entry_resource = RESOURCE cfg,
      labels = LABELS,
      trace = h_trace h,
      span_id = h_span h,
      entry_http_request = None\<rparr>"

text \<open>
  \<open>emit\<close> formats the record first, then looks the level name up in the logging
  module; either step can raise, and then nothing has been tracked or sent.
\<close>

definition emit :: "config \<Rightarrow> GCPHandler \<Rightarrow> log_record \<Rightarrow> state \<Rightarrow> exn + state" where
  "emit cfg h r s =
     (case formatted r of
        Inl e \<Rightarrow> Inl e
      | Inr msg \<Rightarrow>
          (case getattr_logging (levelname r) of
             None \<Rightarrow> Inl AttributeError
           | Some lv \<Rightarrow>
               if lv < LOGGER_level cfg then Inr s
               else Inr (s\<lparr>MLOGLEVELS := MLOGLEVELS s @ [levelname r],
                          TRANSPORT_CHILD := send (child_entry cfg h r msg) (TRANSPORT_CHILD s)\<rparr>)))"

text \<open>
  The root logger hands a record to each of its handlers in turn, in the order of
  registration, skipping a handler whose own level is above the record's number. Every
  \<open>GCPHandler\<close> has its level set to \<open>logging.DEBUG\<close> when it is created. An
  exception raised by a handler ends the loop and goes to the caller of the logging
  function, with the state as it is then.
\<close>

definition handler_level :: int where
  "handler_level = level_no DEBUG"

fun call_each :: "config \<Rightarrow> log_record \<Rightarrow> GCPHandler list \<Rightarrow> state \<Rightarrow> exn option \<times> state" where
  "call_each cfg r [] s = (None, s)"
| "call_each cfg r (h # hs) s =
     (if handler_level \<le> levelno r then
        (case emit cfg h r s of
           Inl e \<Rightarrow> (Some e, s)
         | Inr s' \<Rightarrow> call_each cfg r hs s')
      else call_each cfg r hs s)"

definition callHandlers :: "config \<Rightarrow> log_record \<Rightarrow> state \<Rightarrow> exn option \<times> state" where
  "callHandlers cfg r s = call_each cfg r (handlers s) s"

subsection \<open>Trace and span of a request\<close>

definition chars :: string where
  "chars = ''abcdefghijklmnopqrstuvwxyz1234567890''"

text \<open>
  \<open>rnd x\<close> is the random number drawn for position \<open>x\<close>; \<open>random.choice\<close> picks the
  character at an index below \<open>len(chars)\<close>.
\<close>

definition random_trace :: "(nat \<Rightarrow> nat) \<Rightarrow> string" where
  "random_trace rnd = map (\<lambda>x. chars ! (rnd x mod length chars)) [0..<32]"

text \<open>
  The first lines of \<open>__call__\<close>: the trace identifier before it is prefixed, and the
  span. The header is read in one mode only; an absent or empty header is falsy.
\<close>

definition trace_and_span ::
  "config \<Rightarrow> request \<Rightarrow> (nat \<Rightarrow> nat) \<Rightarrow> exn + (string \<times> string option)" where
  "trace_and_span cfg req rnd =
     (case (if USE_X_HTTP_CLOUD_CONTEXT cfg then META req ''HTTP_X_CLOUD_TRACE_CONTEXT''
            else None) of
        Some (c # cs) \<Rightarrow>
          (let rawTrace = split_on (CHR ''/'') (c # cs)
           in case py_index rawTrace 0 of
                Inl e \<Rightarrow> Inl e
              | Inr t \<Rightarrow>
                  if 1 < length rawTrace then
                    (case py_index rawTrace 1 of
                       Inl e \<Rightarrow> Inl e
                     | Inr r \<Rightarrow>
                         (case py_index (split_on (CHR '';'') r) 0 of
                            Inl e \<Rightarrow> Inl e
                          | Inr sp \<Rightarrow> Inr (t, Some sp)))
                  else Inr (t, None))
      | _ \<Rightarrow> Inr (random_trace rnd, None))"

definition full_trace :: "config \<Rightarrow> string \<Rightarrow> string" where
  "full_trace cfg t = ''projects/'' @ PROJECT cfg @ ''/traces/'' @ t"

subsection \<open>make\_parent\_log\<close>

definition parent_severity :: "string list \<Rightarrow> int \<Rightarrow> string" where
  "parent_severity mlog code =
     (case mlog of
        [] \<Rightarrow> (if 500 \<le> code then getLevelName (level_no ERROR)
               else if 400 \<le> code then getLevelName (level_no WARNING)
               else getLevelName (level_no INFO))
      | x # xs \<Rightarrow> py_min x xs)"

definition REQUEST :: "config \<Rightarrow> request \<Rightarrow> real \<Rightarrow> real \<Rightarrow> response \<Rightarrow> http_request" where
  "REQUEST cfg req start_time now resp =
     \<lparr>requestMethod = req_method req,
      requestUrl = full_path req,
      requestSize = or0 (META req ''CONTENT_LENGTH''),
      remoteIp = (case META req (REMOTE_IP_HEADER cfg) of None \<Rightarrow> ''unknown'' | Some a \<Rightarrow> a),
      status = status_code resp,
      responseSize = or0 (resp_headers resp ''Content-Length''),
      latency = py_format_5f (float_sub now start_time) @ ''s'',
      userAgent = if_truthy (META req ''HTTP_USER_AGENT''),
      referer = if_truthy (META req ''HTTP_REFERER'')\<rparr>"

definition parent_entry ::
  "config \<Rightarrow> string \<Rightarrow> string option \<Rightarrow> string \<Rightarrow> http_request \<Rightarrow> log_entry" where
  "parent_entry cfg tr sp sev hr =
     \<lparr>message = None,
      severity = sev,
      entry_resource = RESOURCE cfg,
      labels = LABELS,
      trace = tr,
      span_id = sp,
      entry_http_request = Some hr\<rparr>"

text \<open>\<open>now\<close> is the reading of \<open>time.time()\<close> taken while the latency is computed.\<close>

definition make_parent_log ::
  "config \<Rightarrow> string \<Rightarrow> string option \<Rightarrow> request \<Rightarrow> real \<Rightarrow> real \<Rightarrow> response \<Rightarrow>
   state \<Rightarrow> state" where
  "make_parent_log cfg tr sp req start_time now resp s =
     (let hr = REQUEST cfg req start_time now resp;
          sev = parent_severity (MLOGLEVELS s) (status_code resp);
          s1 = s\<lparr>MLOGLEVELS := []\<rparr>
      in if \<not> USE_X_HTTP_CLOUD_CONTEXT cfg
         then s1\<lparr>TRANSPORT_PARENT := send (parent_entry cfg tr sp sev hr) (TRANSPORT_PARENT s1)\<rparr>
         else s1)"

subsection \<open>The middleware call\<close>

definition addHandler :: "GCPHandler \<Rightarrow> state \<Rightarrow> state" where
  "addHandler h s = (if h \<in> set (handlers s) then s else s\<lparr>handlers := handlers s @ [h]\<rparr>)"

definition removeHandler :: "GCPHandler \<Rightarrow> state \<Rightarrow> state" where
  "removeHandler h s =
     (if h \<in> set (handlers s) then s\<lparr>handlers := remove1 h (handlers s)\<rparr> else s)"

text \<open>
  What the rest of the stack does with a request in one run: the records it logs
  through the root logger, in order, and then either a response or an exception. When
  a logging call raises, the exception goes to the code that logged; whether that code
  catches it and goes on, or lets it end the run, is part of the run as given, so only
  the state that the logging call leaves is taken from it here.
\<close>

datatype outcome = Returns response | Raises string

definition run_downstream ::
  "config \<Rightarrow> (request \<Rightarrow> log_record list \<times> outcome) \<Rightarrow> request \<Rightarrow> state \<Rightarrow> outcome \<times> state" where
  "run_downstream cfg get_response req s =
     (case get_response req of
        (recs, out) \<Rightarrow> (out, fold (\<lambda>r t. snd (callHandlers cfg r t)) recs s))"

text \<open>
  \<open>__call__\<close>. \<open>start_time\<close> and \<open>now\<close> are the two readings of \<open>time.time()\<close>. An
  exception leaves the function at the point where it is raised, with the state as
  it is then.
\<close>

definition call ::
  "config \<Rightarrow> (request \<Rightarrow> log_record list \<times> outcome) \<Rightarrow> request \<Rightarrow> (nat \<Rightarrow> nat) \<Rightarrow>
   real \<Rightarrow> real \<Rightarrow> state \<Rightarrow> (exn + response) \<times> state" where
  "call cfg get_response req rnd start_time now s =
     (case trace_and_span cfg req rnd of
        Inl e \<Rightarrow> (Inl e, s)
      | Inr (t, sp) \<Rightarrow>
          (let tr = full_trace cfg t;
               gcp_handler = \<lparr>hid = next_hid s, h_trace = tr, h_span = sp\<rparr>;
               s1 = addHandler gcp_handler (s\<lparr>next_hid := Suc (next_hid s)\<rparr>)
           in case run_downstream cfg get_response req s1 of
                (Raises e, s2) \<Rightarrow> (Inl (DownstreamError e), s2)
              | (Returns resp, s2) \<Rightarrow>
                  (Inr resp,
                   removeHandler gcp_handler
                     (make_parent_log cfg tr sp req start_time now resp s2))))"

text \<open>Handler identities are fresh: every registered handler was created earlier.\<close>

definition fresh_ids :: "state \<Rightarrow> bool" where
  "fresh_ids s = (\<forall>h \<in> set (handlers s). hid h < next_hid s)"

subsection \<open>What a run of the downstream handler leaves behind\<close>

text \<open>
  A record reaches the tracked list and the child transport when the handlers' level
  lets it through, its text formats, its level name is an attribute of the logging
  module and the number found there is not below the logger's level.
\<close>

definition passes :: "config \<Rightarrow> log_record \<Rightarrow> bool" where
  "passes cfg r =
     (handler_level \<le> levelno r \<and>
      (case formatted r of Inl e \<Rightarrow> False | Inr msg \<Rightarrow>
         (case getattr_logging (levelname r) of
            None \<Rightarrow> False | Some lv \<Rightarrow> LOGGER_level cfg \<le> lv)))"

text \<open>
  The level names that a sequence of records adds to the tracked list when \<open>n\<close>
  handlers are registered, and the entries it adds to the child transport: every
  registered handler sees every record.
\<close>

definition tracked :: "config \<Rightarrow> nat \<Rightarrow> log_record list \<Rightarrow> string list" where
  "tracked cfg n recs =
     concat (map (\<lambda>r. if passes cfg r then replicate n (levelname r) else []) recs)"

definition forwarded :: "config \<Rightarrow> GCPHandler list \<Rightarrow> log_record list \<Rightarrow> log_entry list" where
  "forwarded cfg hs recs =
     concat (map (\<lambda>r. if passes cfg r
                        then (case formatted r of
                                Inl e \<Rightarrow> []
                              | Inr msg \<Rightarrow> map (\<lambda>h. child_entry cfg h r msg) hs)
                        else []) recs)"

text \<open>The handler object that \<open>__call__\<close> creates in state \<open>s\<close>.\<close>

definition request_handler :: "config \<Rightarrow> request \<Rightarrow> (nat \<Rightarrow> nat) \<Rightarrow> state \<Rightarrow> GCPHandler" where
  "request_handler cfg req rnd s =
     (case trace_and_span cfg req rnd of
        Inr (t, sp) \<Rightarrow> \<lparr>hid = next_hid s, h_trace = full_trace cfg t, h_span = sp\<rparr>
      | Inl e \<Rightarrow> \<lparr>hid = next_hid s, h_trace = [], h_span = None\<rparr>)"

text \<open>
  Following the spec's words, for comparison with \<open>parent_severity\<close>: the highest
  level of a non-empty list, given as head and tail, under the severity order
  DEBUG, INFO, WARNING, ERROR, CRITICAL.
\<close>

definition spec_max_level :: "levelname \<Rightarrow> levelname list \<Rightarrow> levelname" where
  "spec_max_level l ls = foldl (\<lambda>m x. if level_no m < level_no x then x else m) l ls"

subsection \<open>Example inputs\<close>

definition rnd0 :: "nat \<Rightarrow> nat" where
  "rnd0 i = 0"

definition app_returns :: "log_record list \<Rightarrow> int \<Rightarrow> request \<Rightarrow> log_record list \<times> outcome" where
  "app_returns recs code req = (recs, Returns \<lparr>status_code = code, resp_headers = (\<lambda>k. None)\<rparr>)"

definition app_raises :: "log_record list \<Rightarrow> request \<Rightarrow> log_record list \<times> outcome" where
  "app_raises recs req = (recs, Raises ''boom'')"


definition cfg_self :: config where
  "cfg_self = \<lparr>PROJECT = ''p'', REMOTE_IP_HEADER = ''REMOTE_ADDR'',
               USE_X_HTTP_CLOUD_CONTEXT = False, LOGGER_level = 20,
               RESOURCE = Resource ''gae_app'' []\<rparr>"

definition cfg_ext :: config where
  "cfg_ext = cfg_self\<lparr>USE_X_HTTP_CLOUD_CONTEXT := True\<rparr>"

definition state0 :: state where
  "state0 = \<lparr>handlers = [], MLOGLEVELS = [], TRANSPORT_CHILD = [], TRANSPORT_PARENT = [],
             next_hid = 0\<rparr>"

definition req_with :: "string option \<Rightarrow> request" where
  "req_with hdr = \<lparr>req_method = ''GET'', full_path = ''/'',
                   META = (\<lambda>k. if k = ''HTTP_X_CLOUD_TRACE_CONTEXT'' then hdr else None)\<rparr>"

definition resp_of :: "int \<Rightarrow> response" where
  "resp_of code = \<lparr>status_code = code, resp_headers = (\<lambda>k. None)\<rparr>"

definition rec_of :: "levelname \<Rightarrow> log_record" where
  "rec_of l = \<lparr>levelno = level_no l, formatted = Inr ''m''\<rparr>"

definition rec_level :: "int \<Rightarrow> log_record" where
  "rec_level n = \<lparr>levelno = n, formatted = Inr ''m''\<rparr>"



section \<open>Auxiliary facts\<close>

lemma level_no_ge_handler_level: "handler_level \<le> level_no l"
  by (cases l) (simp_all add: handler_level_def)

lemma getLevelName_level_no [simp]: "getLevelName (level_no l) = level_str l"
  by (cases l) (simp_all add: getLevelName_def)

lemma getLevelName_numerals [simp]:
  "getLevelName 50 = ''CRITICAL''" "getLevelName 40 = ''ERROR''" "getLevelName 30 = ''WARNING''"
  "getLevelName 20 = ''INFO''" "getLevelName 10 = ''DEBUG''"
  by (simp_all add: getLevelName_def)

lemma getattr_logging_level_str [simp]: "getattr_logging (level_str l) = Some (level_no l)"
  by (cases l) (simp_all add: getattr_logging_def)

lemma getattr_logging_Level [simp]: "getattr_logging (''Level '' @ x) = None"
  by (simp add: getattr_logging_def)

lemma emit_passes:
  "handler_level \<le> levelno r \<Longrightarrow>
   emit cfg h r s =
   (case formatted r of
      Inl e \<Rightarrow> Inl e
    | Inr msg \<Rightarrow>
        (case getattr_logging (levelname r) of
           None \<Rightarrow> Inl AttributeError
         | Some lv \<Rightarrow>
             Inr (if passes cfg r
                  then s\<lparr>MLOGLEVELS := MLOGLEVELS s @ [levelname r],
                         TRANSPORT_CHILD := TRANSPORT_CHILD s @ [child_entry cfg h r msg]\<rparr>
                  else s)))"
  by (simp add: emit_def passes_def send_def split: sum.split option.split)

lemma snd_call_each:
  "snd (call_each cfg r hs s) =
   s\<lparr>MLOGLEVELS := MLOGLEVELS s @
          (if passes cfg r then replicate (length hs) (levelname r) else []),
      TRANSPORT_CHILD := TRANSPORT_CHILD s @
          (if passes cfg r
           then (case formatted r of
                   Inl e \<Rightarrow> []
                 | Inr msg \<Rightarrow> map (\<lambda>h. child_entry cfg h r msg) hs)
           else [])\<rparr>"
proof (induction hs arbitrary: s)
  case Nil
  show ?case by (simp split: sum.split)
next
  case (Cons h hs)
  show ?case
  proof (cases "handler_level \<le> levelno r")
    case False
    then have "\<not> passes cfg r" by (simp add: passes_def)
    with False show ?thesis by (simp add: Cons.IH)
  next
    case True
    show ?thesis
    proof (cases "passes cfg r")
      case p: True
      then obtain msg lv where m: "formatted r = Inr msg"
        and l: "getattr_logging (levelname r) = Some lv"
        by (auto simp: passes_def split: sum.splits option.splits)
      have "call_each cfg r (h # hs) s =
        call_each cfg r hs (s\<lparr>MLOGLEVELS := MLOGLEVELS s @ [levelname r],
                         TRANSPORT_CHILD := TRANSPORT_CHILD s @ [child_entry cfg h r msg]\<rparr>)"
        using True p by (simp add: emit_passes m l)
      then show ?thesis
        using p by (simp add: Cons.IH m replicate_app_Cons_same)
    next
      case np: False
      have "snd (call_each cfg r (h # hs) s) =
        (case emit cfg h r s of Inl e \<Rightarrow> s | Inr s' \<Rightarrow> snd (call_each cfg r hs s'))"
        using True by (simp split: sum.split)
      also have "\<dots> = s"
        using True np by (simp add: emit_passes Cons.IH split: sum.split option.split)
      finally show ?thesis
        using np by simp
    qed
  qed
qed

lemma callHandlers_eq:
  "snd (callHandlers cfg r s) =
   s\<lparr>MLOGLEVELS := MLOGLEVELS s @ tracked cfg (length (handlers s)) [r],
      TRANSPORT_CHILD := TRANSPORT_CHILD s @ forwarded cfg (handlers s) [r]\<rparr>"
  by (simp add: callHandlers_def snd_call_each tracked_def forwarded_def)

lemma tracked_Cons: "tracked cfg n (r # recs) = tracked cfg n [r] @ tracked cfg n recs"
  by (simp add: tracked_def)

lemma forwarded_Cons: "forwarded cfg hs (r # recs) = forwarded cfg hs [r] @ forwarded cfg hs recs"
  by (simp add: forwarded_def)

lemma tracked_Nil: "tracked cfg n [] = []"
  by (simp add: tracked_def)

lemma forwarded_Nil: "forwarded cfg hs [] = []"
  by (simp add: forwarded_def)

lemma fold_callHandlers:
  "fold (\<lambda>r t. snd (callHandlers cfg r t)) recs s =
   s\<lparr>MLOGLEVELS := MLOGLEVELS s @ tracked cfg (length (handlers s)) recs,
      TRANSPORT_CHILD := TRANSPORT_CHILD s @ forwarded cfg (handlers s) recs\<rparr>"
proof (induction recs arbitrary: s)
  case Nil
  show ?case by (simp add: tracked_Nil forwarded_Nil)
next
  case (Cons r recs)
  have "fold (\<lambda>r t. snd (callHandlers cfg r t)) (r # recs) s =
      fold (\<lambda>r t. snd (callHandlers cfg r t)) recs (snd (callHandlers cfg r s))"
    by simp
  also have "\<dots> = s\<lparr>MLOGLEVELS := MLOGLEVELS s @ tracked cfg (length (handlers s)) (r # recs),
      TRANSPORT_CHILD := TRANSPORT_CHILD s @ forwarded cfg (handlers s) (r # recs)\<rparr>"
    unfolding Cons.IH
    by (simp add: callHandlers_eq tracked_Cons [of cfg _ r recs] forwarded_Cons [of cfg _ r recs])
  finally show ?case .
qed

lemma split_on_eq:
  "split_on c s =
   takeWhile (\<lambda>x. x \<noteq> c) s #
   (if c \<in> set s then split_on c (tl (dropWhile (\<lambda>x. x \<noteq> c) s)) else [])"
  by (induction s) auto

lemma split_on_length: "Suc 0 < length (split_on c s) \<longleftrightarrow> c \<in> set s"
  by (subst split_on_eq) (simp add: split_on_eq [of c "tl _"])

lemma py_index_split_on_0: "py_index (split_on c s) 0 = Inr (takeWhile (\<lambda>x. x \<noteq> c) s)"
  by (subst split_on_eq) (simp add: py_index_def)

lemma py_index_split_on_1:
  "c \<in> set s \<Longrightarrow>
   py_index (split_on c s) (Suc 0) = Inr (takeWhile (\<lambda>x. x \<noteq> c) (tl (dropWhile (\<lambda>x. x \<noteq> c) s)))"
  by (subst split_on_eq) (simp add: py_index_def split_on_eq [of c "tl _"])

lemma trace_and_span_unfold:
  assumes "USE_X_HTTP_CLOUD_CONTEXT cfg"
    and "META req ''HTTP_X_CLOUD_TRACE_CONTEXT'' = Some h"
    and "h \<noteq> []"
  shows "trace_and_span cfg req rnd =
     (case py_index (split_on (CHR ''/'') h) 0 of
        Inl e \<Rightarrow> Inl e
      | Inr t \<Rightarrow>
          if 1 < length (split_on (CHR ''/'') h) then
            (case py_index (split_on (CHR ''/'') h) 1 of
               Inl e \<Rightarrow> Inl e
             | Inr r \<Rightarrow>
                 (case py_index (split_on (CHR '';'') r) 0 of
                    Inl e \<Rightarrow> Inl e
                  | Inr sp \<Rightarrow> Inr (t, Some sp)))
          else Inr (t, None))"
proof -
  obtain c cs where h: "h = c # cs"
    using assms(3) by (cases h) auto
  show ?thesis
    using assms(1,2) unfolding h
    by (simp add: trace_and_span_def Let_def del: split_on.simps)
qed

lemma trace_and_span_header:
  assumes "USE_X_HTTP_CLOUD_CONTEXT cfg"
    and "META req ''HTTP_X_CLOUD_TRACE_CONTEXT'' = Some h"
    and "h \<noteq> []"
  shows "trace_and_span cfg req rnd =
     Inr (takeWhile (\<lambda>x. x \<noteq> CHR ''/'') h,
          if CHR ''/'' \<in> set h
          then Some (takeWhile (\<lambda>x. x \<noteq> CHR '';'')
                 (takeWhile (\<lambda>x. x \<noteq> CHR ''/'') (tl (dropWhile (\<lambda>x. x \<noteq> CHR ''/'') h))))
          else None)"
proof (cases "CHR ''/'' \<in> set h")
  case True
  show ?thesis
    unfolding trace_and_span_unfold [OF assms]
    by (simp add: True py_index_split_on_0 split_on_length py_index_split_on_1
        del: split_on.simps)
next
  case False
  show ?thesis
    unfolding trace_and_span_unfold [OF assms]
    by (simp add: False py_index_split_on_0 split_on_length del: split_on.simps)
qed

lemma trace_and_span_random:
  assumes "\<not> USE_X_HTTP_CLOUD_CONTEXT cfg \<or> META req ''HTTP_X_CLOUD_TRACE_CONTEXT'' = None
           \<or> META req ''HTTP_X_CLOUD_TRACE_CONTEXT'' = Some []"
  shows "trace_and_span cfg req rnd = Inr (random_trace rnd, None)"
  using assms by (auto simp: trace_and_span_def)

lemma trace_and_span_total: "\<exists>t sp. trace_and_span cfg req rnd = Inr (t, sp)"
proof (cases "USE_X_HTTP_CLOUD_CONTEXT cfg \<and>
    (\<exists>h. META req ''HTTP_X_CLOUD_TRACE_CONTEXT'' = Some h \<and> h \<noteq> [])")
  case True
  then show ?thesis using trace_and_span_header by blast
next
  case False
  then have "\<not> USE_X_HTTP_CLOUD_CONTEXT cfg \<or> META req ''HTTP_X_CLOUD_TRACE_CONTEXT'' = None
           \<or> META req ''HTTP_X_CLOUD_TRACE_CONTEXT'' = Some []"
    by (cases "META req ''HTTP_X_CLOUD_TRACE_CONTEXT''") auto
  then show ?thesis using trace_and_span_random by blast
qed

lemma random_trace_length: "length (random_trace rnd) = 32"
  by (simp add: random_trace_def)

lemma random_trace_chars: "set (random_trace rnd) \<subseteq> set chars"
proof -
  have "chars ! (rnd x mod length chars) \<in> set chars" for x
    by (rule nth_mem) (simp add: chars_def)
  then show ?thesis by (auto simp: random_trace_def)
qed


lemma addHandler_fields [simp]:
  "MLOGLEVELS (addHandler h s) = MLOGLEVELS s"
  "TRANSPORT_CHILD (addHandler h s) = TRANSPORT_CHILD s"
  "TRANSPORT_PARENT (addHandler h s) = TRANSPORT_PARENT s"
  "next_hid (addHandler h s) = next_hid s"
  by (simp_all add: addHandler_def)

lemma removeHandler_fields [simp]:
  "MLOGLEVELS (removeHandler h s) = MLOGLEVELS s"
  "TRANSPORT_CHILD (removeHandler h s) = TRANSPORT_CHILD s"
  "TRANSPORT_PARENT (removeHandler h s) = TRANSPORT_PARENT s"
  "next_hid (removeHandler h s) = next_hid s"
  "handlers (removeHandler h s) = remove1 h (handlers s)"
  by (simp_all add: removeHandler_def remove1_idem)

lemma make_parent_log_fields [simp]:
  "MLOGLEVELS (make_parent_log cfg tr sp req st now resp s) = []"
  "TRANSPORT_CHILD (make_parent_log cfg tr sp req st now resp s) = TRANSPORT_CHILD s"
  "handlers (make_parent_log cfg tr sp req st now resp s) = handlers s"
  "next_hid (make_parent_log cfg tr sp req st now resp s) = next_hid s"
  by (simp_all add: make_parent_log_def Let_def)

lemma make_parent_log_parent:
  "TRANSPORT_PARENT (make_parent_log cfg tr sp req st now resp s) =
   (if USE_X_HTTP_CLOUD_CONTEXT cfg then TRANSPORT_PARENT s
    else TRANSPORT_PARENT s @
      [parent_entry cfg tr sp (parent_severity (MLOGLEVELS s) (status_code resp))
         (REQUEST cfg req st now resp)])"
  by (simp add: make_parent_log_def Let_def send_def)

lemma addHandler_fresh:
  "fresh_ids s \<Longrightarrow> hid h = next_hid s \<Longrightarrow>
   handlers (addHandler h (s\<lparr>next_hid := n\<rparr>)) = handlers s @ [h]"
  by (auto simp: addHandler_def fresh_ids_def)

lemma remove1_fresh: "fresh_ids s \<Longrightarrow> hid h = next_hid s \<Longrightarrow> remove1 h (handlers s @ [h]) = handlers s"
  by (auto simp: fresh_ids_def remove1_append)

lemma run_downstream_eq:
  "run_downstream cfg get_response req s =
   (snd (get_response req),
    s\<lparr>MLOGLEVELS := MLOGLEVELS s @ tracked cfg (length (handlers s)) (fst (get_response req)),
      TRANSPORT_CHILD := TRANSPORT_CHILD s @ forwarded cfg (handlers s) (fst (get_response req))\<rparr>)"
  by (simp add: run_downstream_def fold_callHandlers split: prod.split)

lemma request_handler_eq:
  "trace_and_span cfg req rnd = Inr (t, sp) \<Longrightarrow>
   request_handler cfg req rnd s = \<lparr>hid = next_hid s, h_trace = full_trace cfg t, h_span = sp\<rparr>"
  by (simp add: request_handler_def)

lemma call_returns:
  assumes "trace_and_span cfg req rnd = Inr (t, sp)"
    and "get_response req = (recs, Returns resp)"
  shows "call cfg get_response req rnd st now s =
    (Inr resp,
     removeHandler (request_handler cfg req rnd s)
       (make_parent_log cfg (full_trace cfg t) sp req st now resp
          (snd (run_downstream cfg get_response req
             (addHandler (request_handler cfg req rnd s) (s\<lparr>next_hid := Suc (next_hid s)\<rparr>))))))"
  by (simp add: call_def assms request_handler_eq [OF assms(1)] Let_def
      run_downstream_eq)

lemma call_raises:
  assumes "trace_and_span cfg req rnd = Inr (t, sp)"
    and "get_response req = (recs, Raises e)"
  shows "call cfg get_response req rnd st now s =
    (Inl (DownstreamError e),
     snd (run_downstream cfg get_response req
            (addHandler (request_handler cfg req rnd s) (s\<lparr>next_hid := Suc (next_hid s)\<rparr>))))"
  by (simp add: call_def assms request_handler_eq [OF assms(1)] Let_def
      run_downstream_eq)

lemma run_downstream_fields [simp]:
  "handlers (snd (run_downstream cfg get_response req s)) = handlers s"
  "TRANSPORT_PARENT (snd (run_downstream cfg get_response req s)) = TRANSPORT_PARENT s"
  "next_hid (snd (run_downstream cfg get_response req s)) = next_hid s"
  "MLOGLEVELS (snd (run_downstream cfg get_response req s)) =
     MLOGLEVELS s @ tracked cfg (length (handlers s)) (fst (get_response req))"
  "TRANSPORT_CHILD (snd (run_downstream cfg get_response req s)) =
     TRANSPORT_CHILD s @ forwarded cfg (handlers s) (fst (get_response req))"
  by (simp_all add: run_downstream_eq)

lemma tracked_none:
  "\<forall>r \<in> set recs. \<not> passes cfg r \<Longrightarrow> tracked cfg n recs = []"
  by (induction recs) (simp_all add: tracked_def)

lemma fresh_ids_state0: "fresh_ids state0"
  by (simp add: fresh_ids_def state0_def)

lemma random_trace_rnd0: "random_trace rnd0 = ''aaaaaaaaaaaaaaaaaaaaaaaaaaaaaaaa''"
  by (simp add: random_trace_def rnd0_def chars_def upt_rec [of _ "numeral _"] upt_rec [of _ "Suc _"] map_replicate_const)

lemma state0_fields [simp]:
  "handlers state0 = []" "MLOGLEVELS state0 = []" "TRANSPORT_CHILD state0 = []"
  "TRANSPORT_PARENT state0 = []" "next_hid state0 = 0"
  by (simp_all add: state0_def)

lemma addHandler_state0 [simp]: "handlers (addHandler h (state0\<lparr>next_hid := n\<rparr>)) = [h]"
  by (simp add: addHandler_def)

lemma cfg_self_fields [simp]:
  "USE_X_HTTP_CLOUD_CONTEXT cfg_self = False" "LOGGER_level cfg_self = 20" "PROJECT cfg_self = ''p''"
  by (simp_all add: cfg_self_def)

lemma cfg_ext_fields [simp]:
  "USE_X_HTTP_CLOUD_CONTEXT cfg_ext = True" "LOGGER_level cfg_ext = 20" "PROJECT cfg_ext = ''p''"
  by (simp_all add: cfg_ext_def cfg_self_def)

lemma app_returns_fields [simp]:
  "fst (app_returns recs code req) = recs"
  "snd (app_returns recs code req) = Returns (resp_of code)"
  by (simp_all add: app_returns_def resp_of_def)

lemma app_raises_fields [simp]:
  "fst (app_raises recs req) = recs"
  "snd (app_raises recs req) = Raises ''boom''"
  by (simp_all add: app_raises_def)

lemma trace_and_span_self_None:
  "trace_and_span cfg_self (req_with hdr) rnd0 = Inr (random_trace rnd0, None)"
  by (rule trace_and_span_random) simp

lemma req_with_header [simp]: "META (req_with hdr) ''HTTP_X_CLOUD_TRACE_CONTEXT'' = hdr"
  by (simp add: req_with_def)


lemma call_parent:
  "TRANSPORT_PARENT (snd (call cfg get_response req rnd st now s)) =
   (case snd (get_response req) of
      Raises e \<Rightarrow> TRANSPORT_PARENT s
    | Returns resp \<Rightarrow>
        if USE_X_HTTP_CLOUD_CONTEXT cfg then TRANSPORT_PARENT s
        else TRANSPORT_PARENT s @
          [parent_entry cfg (h_trace (request_handler cfg req rnd s))
             (h_span (request_handler cfg req rnd s))
             (parent_severity
                (MLOGLEVELS s @
                 tracked cfg
                   (length (handlers (addHandler (request_handler cfg req rnd s)
                      (s\<lparr>next_hid := Suc (next_hid s)\<rparr>))))
                   (fst (get_response req)))
                (status_code resp))
             (REQUEST cfg req st now resp)])"
proof -
  obtain t sp where tas: "trace_and_span cfg req rnd = Inr (t, sp)"
    using trace_and_span_total by blast
  show ?thesis
    by (simp add: call_def tas Let_def run_downstream_eq request_handler_eq [OF tas]
        make_parent_log_parent split: outcome.split)
qed

lemma call_tracker:
  "MLOGLEVELS (snd (call cfg get_response req rnd st now s)) =
   (case snd (get_response req) of
      Returns resp \<Rightarrow> []
    | Raises e \<Rightarrow>
        MLOGLEVELS s @
        tracked cfg
          (length (handlers (addHandler (request_handler cfg req rnd s)
             (s\<lparr>next_hid := Suc (next_hid s)\<rparr>))))
          (fst (get_response req)))"
proof -
  obtain t sp where tas: "trace_and_span cfg req rnd = Inr (t, sp)"
    using trace_and_span_total by blast
  show ?thesis
    by (simp add: call_def tas Let_def run_downstream_eq request_handler_eq [OF tas]
        split: outcome.split)
qed


lemma call_handlers:
  assumes "fresh_ids s"
  shows "handlers (snd (call cfg get_response req rnd st now s)) =
   (case snd (get_response req) of
      Returns resp \<Rightarrow> handlers s
    | Raises e \<Rightarrow> handlers s @ [request_handler cfg req rnd s])"
proof -
  obtain t sp where tas: "trace_and_span cfg req rnd = Inr (t, sp)"
    using trace_and_span_total by blast
  have hid: "hid (request_handler cfg req rnd s) = next_hid s"
    by (simp add: request_handler_eq [OF tas])
  have "handlers (snd (call cfg get_response req rnd st now s)) =
   (case snd (get_response req) of
      Returns resp \<Rightarrow> remove1 (request_handler cfg req rnd s)
         (handlers (addHandler (request_handler cfg req rnd s) (s\<lparr>next_hid := Suc (next_hid s)\<rparr>)))
    | Raises e \<Rightarrow> handlers (addHandler (request_handler cfg req rnd s) (s\<lparr>next_hid := Suc (next_hid s)\<rparr>)))"
    by (simp add: call_def tas Let_def run_downstream_eq request_handler_eq [OF tas]
        split: outcome.split)
  then show ?thesis
    by (simp add: addHandler_fresh [OF assms hid] remove1_fresh [OF assms hid]
        split: outcome.split)
qed

lemma call_next_hid: "next_hid (snd (call cfg get_response req rnd st now s)) = Suc (next_hid s)"
proof -
  obtain t sp where tas: "trace_and_span cfg req rnd = Inr (t, sp)"
    using trace_and_span_total by blast
  show ?thesis
    by (simp add: call_def tas Let_def run_downstream_eq split: outcome.split)
qed

lemma fresh_ids_call:
  assumes "fresh_ids s"
  shows "fresh_ids (snd (call cfg get_response req rnd st now s))"
proof -
  obtain t sp where tas: "trace_and_span cfg req rnd = Inr (t, sp)"
    using trace_and_span_total by blast
  have hid: "hid (request_handler cfg req rnd s) = next_hid s"
    by (simp add: request_handler_eq [OF tas])
  show ?thesis
    using assms hid
    by (auto simp: fresh_ids_def call_handlers [OF assms] call_next_hid split: outcome.split)
qed

lemma passes_cfg_mode [simp]:
  "passes (cfg\<lparr>USE_X_HTTP_CLOUD_CONTEXT := b\<rparr>) r = passes cfg r"
  by (simp add: passes_def split: sum.split option.split)

lemma passes_formatted: "passes cfg r \<Longrightarrow> \<exists>msg. formatted r = Inr msg"
  by (auto simp: passes_def split: sum.splits)

lemma tracked_cfg_mode [simp]:
  "tracked (cfg\<lparr>USE_X_HTTP_CLOUD_CONTEXT := b\<rparr>) n recs = tracked cfg n recs"
  by (simp add: tracked_def)

lemma map_severity_forwarded:
  "map severity (forwarded cfg hs recs) = tracked cfg (length hs) recs"
proof (induction recs)
  case Nil
  show ?case by (simp add: forwarded_def tracked_def)
next
  case (Cons r recs)
  have "map severity (forwarded cfg hs [r]) = tracked cfg (length hs) [r]"
  proof (cases "passes cfg r")
    case True
    then obtain msg where "formatted r = Inr msg"
      using passes_formatted by blast
    with True show ?thesis
      by (simp add: forwarded_def tracked_def child_entry_def o_def map_replicate_const)
  next
    case False
    then show ?thesis by (simp add: forwarded_def tracked_def)
  qed
  with Cons.IH show ?case
    by (simp add: forwarded_Cons [of cfg hs r recs] tracked_Cons [of cfg _ r recs])
qed

lemma hid_request_handler [simp]: "hid (request_handler cfg req rnd s) = next_hid s"
proof -
  obtain t sp where tas: "trace_and_span cfg req rnd = Inr (t, sp)"
    using trace_and_span_total by blast
  show ?thesis by (simp add: request_handler_eq [OF tas])
qed


lemma dec_digits_length: "0 < k \<Longrightarrow> n < 10 ^ k \<Longrightarrow> length (dec_digits n) \<le> k"
proof (induction n arbitrary: k rule: dec_digits.induct)
  case (1 n)
  show ?case
  proof (cases "n < 10")
    case True
    then show ?thesis using "1.prems" by (subst dec_digits.simps) simp
  next
    case False
    then obtain j where k: "k = Suc j"
      using "1.prems" by (cases k) auto
    have "0 < j"
      using False "1.prems" k by (cases j) auto
    moreover have "n div 10 < 10 ^ j"
      using "1.prems" k by (simp add: less_mult_imp_div_less mult.commute)
    ultimately have "length (dec_digits (n div 10)) \<le> j"
      using "1.IH" False by simp
    then show ?thesis
      using False k by (subst dec_digits.simps) simp
  qed
qed

lemma dec_digits_set: "set (dec_digits n) \<subseteq> set ''0123456789''"
proof (induction n rule: dec_digits.induct)
  case (1 n)
  have d: "m < 10 \<Longrightarrow> ''0123456789'' ! m \<in> set ''0123456789''" for m :: nat
    by (rule nth_mem) simp
  show ?case
  proof (cases "n < 10")
    case True
    then show ?thesis using d [of n] by (subst dec_digits.simps) simp
  next
    case False
    have "n mod 10 < 10" by simp
    then show ?thesis
      using False "1.IH" d [of "n mod 10"] by (subst dec_digits.simps) simp
  qed
qed

lemma round_half_even_error: "\<bar>of_int (round_half_even x) - x\<bar> \<le> 1 / 2"
proof -
  have "of_int \<lfloor>x\<rfloor> \<le> x" "x < of_int \<lfloor>x\<rfloor> + 1" by linarith+
  then show ?thesis
    by (auto simp: round_half_even_def Let_def)
qed

lemma round_half_even_tie:
  "\<bar>of_int (round_half_even x) - x\<bar> = 1 / 2 \<Longrightarrow> even (round_half_even x)"
proof -
  assume a: "\<bar>of_int (round_half_even x) - x\<bar> = 1 / 2"
  have f: "of_int \<lfloor>x\<rfloor> \<le> x" "x < of_int \<lfloor>x\<rfloor> + 1" by linarith+
  show ?thesis
  proof (cases "x - of_int \<lfloor>x\<rfloor> = 1 / 2")
    case True
    then show ?thesis by (simp add: round_half_even_def Let_def)
  next
    case False
    then show ?thesis
      using a f by (auto simp: round_half_even_def Let_def split: if_splits)
  qed
qed

lemma round_half_even_nonneg: "0 \<le> x \<Longrightarrow> 0 \<le> round_half_even x"
proof -
  assume "0 \<le> x"
  then have "0 \<le> \<lfloor>x\<rfloor>" by simp
  then show ?thesis by (simp add: round_half_even_def Let_def)
qed

lemma digit_nth: "m < 10 \<Longrightarrow> (of_char (''0123456789'' ! m) :: nat) = 48 + m"
proof -
  assume "m < 10"
  then have "m \<in> {0, 1, 2, 3, 4, 5, 6, 7, 8, 9}" by auto
  then show ?thesis by auto
qed

lemma decimal_val_snoc: "decimal_val (ds @ [c]) = 10 * decimal_val ds + (of_char c - 48)"
  by (simp add: decimal_val_def)

lemma decimal_val_dec_digits: "decimal_val (dec_digits n) = n"
proof (induction n rule: dec_digits.induct)
  case (1 n)
  show ?case
  proof (cases "n < 10")
    case True
    then show ?thesis
      by (subst dec_digits.simps) (simp add: decimal_val_def digit_nth)
  next
    case False
    have "n mod 10 < 10" by simp
    then show ?thesis
      using False "1.IH"
      by (subst dec_digits.simps) (simp add: decimal_val_snoc digit_nth)
  qed
qed

lemma decimal_val_zeros: "decimal_val (replicate k (CHR ''0'') @ ds) = decimal_val ds"
proof -
  have "foldl (\<lambda>a c. 10 * a + (of_char c - 48)) 0 (replicate k (CHR ''0'')) = (0::nat)"
    by (induction k) simp_all
  then show ?thesis by (simp add: decimal_val_def)
qed

lemma dec_digits_nonempty: "dec_digits n \<noteq> []"
  by (subst dec_digits.simps) simp

lemma hd_dec_digits: "hd (dec_digits n) = CHR ''0'' \<Longrightarrow> dec_digits n = ''0''"
proof (induction n rule: dec_digits.induct)
  case (1 n)
  show ?case
  proof (cases "n < 10")
    case True
    then have "n \<in> {0, 1, 2, 3, 4, 5, 6, 7, 8, 9}" by auto
    then show ?thesis
      using "1.prems" by (subst dec_digits.simps, subst (asm) dec_digits.simps) auto
  next
    case False
    have ne: "dec_digits (n div 10) \<noteq> []" by (rule dec_digits_nonempty)
    have "hd (dec_digits (n div 10)) = CHR ''0''"
      using "1.prems" False ne by (subst (asm) dec_digits.simps) simp
    then have "dec_digits (n div 10) = ''0''"
      using "1.IH" False by simp
    then have "decimal_val (dec_digits (n div 10)) = 0"
      by (simp add: decimal_val_def)
    then have "n div 10 = 0"
      by (simp add: decimal_val_dec_digits)
    with False show ?thesis by simp
  qed
qed

lemma floor_log2:
  assumes "0 < x" and "2 powi k \<le> x" and "x < 2 powi (k + 1)"
  shows "\<lfloor>log 2 x\<rfloor> = k"
proof -
  have p: "2 powr (of_int j) = (2::real) powi j" for j
    by (simp add: powr_real_of_int')
  have "of_int k \<le> log 2 x"
    using assms(1,2) by (simp add: le_log_iff p)
  moreover have "log 2 x < of_int (k + 1)"
    using assms(1,3) by (simp add: log_less_iff p [symmetric] del: of_int_add)
  ultimately show ?thesis
    by (simp add: floor_eq_iff)
qed

lemma round_to_float_error:
  "\<bar>round_to_float x - x\<bar> \<le> max (\<bar>x\<bar> / 2 ^ 53) (2 powi (- 1075))"
proof (cases "x = 0")
  case True
  then show ?thesis by (simp add: round_to_float_def)
next
  case False
  define e0 where "e0 = \<lfloor>log 2 \<bar>x\<bar>\<rfloor>"
  define e where "e = max e0 (- 1022)"
  define q :: real where "q = 2 powi (e - 52)"
  have q: "0 < q" by (simp add: q_def)
  have r: "round_to_float x = of_int (round_half_even (x / q)) * q"
    using False by (simp add: round_to_float_def Let_def q_def e_def e0_def)
  have "\<bar>of_int (round_half_even (x / q)) - x / q\<bar> \<le> 1 / 2"
    by (rule round_half_even_error)
  then have "\<bar>of_int (round_half_even (x / q)) - x / q\<bar> * q \<le> 1 / 2 * q"
    using q by (intro mult_right_mono) simp_all
  moreover have "\<bar>of_int (round_half_even (x / q)) - x / q\<bar> * q =
      \<bar>of_int (round_half_even (x / q)) * q - x\<bar>"
  proof -
    have "of_int (round_half_even (x / q)) * q - x = (of_int (round_half_even (x / q)) - x / q) * q"
      using q by (simp add: field_simps)
    then show ?thesis
      using q by (simp add: abs_mult)
  qed
  ultimately have err: "\<bar>round_to_float x - x\<bar> \<le> q / 2"
    by (simp add: r)
  have half: "q / 2 = 2 powi (e - 53)"
    by (simp add: q_def power_int_diff)
  show ?thesis
  proof (cases "- 1022 \<le> e0")
    case True
    then have "e = e0" by (simp add: e_def)
    have "of_int e0 \<le> log 2 \<bar>x\<bar>" by (simp add: e0_def)
    then have "2 powr (of_int e0) \<le> \<bar>x\<bar>"
      using False by (simp add: le_log_iff)
    then have "2 powi e0 \<le> \<bar>x\<bar>"
      by (simp add: powr_real_of_int')
    then have "2 powi e0 / 2 ^ 53 \<le> \<bar>x\<bar> / 2 ^ 53"
      by (simp add: divide_right_mono)
    moreover have "q / 2 = 2 powi e0 / 2 ^ 53"
      by (simp add: half \<open>e = e0\<close> power_int_diff)
    ultimately have "\<bar>round_to_float x - x\<bar> \<le> \<bar>x\<bar> / 2 ^ 53"
      using err by (simp only:)
    then show ?thesis by (rule max.coboundedI1)
  next
    case False
    then have "e = - 1022" by (simp add: e_def)
    then have "q / 2 = 2 powi (- 1075)" by (simp only: half) simp
    then have "\<bar>round_to_float x - x\<bar> \<le> 2 powi (- 1075)"
      using err by (simp only:)
    then show ?thesis by (rule max.coboundedI2)
  qed
qed

lemma float_sub_example: "float_sub (3 / 64) (1 / 2 ^ 60) = 3 / 64"
proof -
  define x :: real where "x = 54043195528445951 / 1152921504606846976"
  have x: "3 / 64 - 1 / 2 ^ 60 = x"
    by (simp add: x_def)
  have "\<lfloor>log 2 x\<rfloor> = - 5"
    by (rule floor_log2) (simp_all add: x_def)
  then have l: "\<lfloor>log 2 \<bar>x\<bar>\<rfloor> = - 5"
    by (simp add: x_def)
  have n: "x \<noteq> 0"
    by (simp add: x_def)
  have q: "x / 2 powi (- 57) = 54043195528445951 / 8"
    by (simp add: x_def)
  have r: "round_half_even (54043195528445951 / 8) = 6755399441055744"
    by (simp add: round_half_even_def)
  have e: "max \<lfloor>log 2 \<bar>x\<bar>\<rfloor> (- 1022) - 52 = - 57"
    by (simp add: l)
  have "round_to_float x = of_int (round_half_even (x / 2 powi (- 57))) * 2 powi (- 57)"
    using n by (simp only: round_to_float_def Let_def e if_False)
  also have "\<dots> = of_int 6755399441055744 * 2 powi (- 57)"
    by (simp only: q r)
  also have "\<dots> = 3 / 64"
    by simp
  finally show ?thesis
    by (simp only: float_sub_def x)
qed

lemma py_format_5f_tie: "py_format_5f (3 / 64) = ''0.04688''"
proof -
  have d: "dec_digits 0 = ''0''" "dec_digits 4 = ''4''"
    by (subst dec_digits.simps, simp)+
  have e: "dec_digits 4688 = ''4688''"
    by (simp add: dec_digits.simps [of 4688] dec_digits.simps [of 468]
        dec_digits.simps [of 46] d)
  show ?thesis
    by (simp add: py_format_5f_def round_half_even_def d e)
qed

lemma py_format_5f_spec:
  "\<exists>ip fp n.
     py_format_5f x = (if x < 0 then ''-'' else []) @ ip @ ''.'' @ fp \<and>
     length fp = 5 \<and> set fp \<subseteq> set ''0123456789'' \<and> set ip \<subseteq> set ''0123456789'' \<and>
     ip \<noteq> [] \<and> (hd ip = CHR ''0'' \<longrightarrow> ip = ''0'') \<and>
     decimal_val ip * 100000 + decimal_val fp = n \<and>
     \<bar>real n - \<bar>x\<bar> * 100000\<bar> \<le> 1 / 2 \<and>
     (\<bar>real n - \<bar>x\<bar> * 100000\<bar> = 1 / 2 \<longrightarrow> even n)"
proof -
  define m where "m = round_half_even (\<bar>x\<bar> * 100000)"
  define n where "n = nat m"
  define frac where "frac = dec_digits (n mod 100000)"
  define fp where "fp = replicate (5 - length frac) (CHR ''0'') @ frac"
  define ip where "ip = dec_digits (n div 100000)"
  have m0: "0 \<le> m"
    unfolding m_def by (rule round_half_even_nonneg) simp
  then have rn: "real n = of_int m"
    by (simp add: n_def)
  have "n mod 100000 < 10 ^ 5" by simp
  then have len: "length frac \<le> 5"
    unfolding frac_def by (intro dec_digits_length) simp_all
  have 1: "py_format_5f x = (if x < 0 then ''-'' else []) @ ip @ ''.'' @ fp"
    by (simp add: py_format_5f_def Let_def n_def m_def frac_def fp_def ip_def)
  have 2: "length fp = 5"
    using len by (simp add: fp_def)
  have 3: "set fp \<subseteq> set ''0123456789''"
    using dec_digits_set [of "n mod 100000"] by (auto simp: fp_def frac_def)
  have 4: "set ip \<subseteq> set ''0123456789''"
    unfolding ip_def by (rule dec_digits_set)
  have 5: "ip \<noteq> []" "hd ip = CHR ''0'' \<longrightarrow> ip = ''0''"
    unfolding ip_def using dec_digits_nonempty hd_dec_digits by blast+
  have "decimal_val fp = n mod 100000"
    by (simp add: fp_def frac_def decimal_val_zeros decimal_val_dec_digits)
  moreover have "decimal_val ip = n div 100000"
    by (simp add: ip_def decimal_val_dec_digits)
  ultimately have 6: "decimal_val ip * 100000 + decimal_val fp = n"
    by simp
  have 7: "\<bar>real n - \<bar>x\<bar> * 100000\<bar> \<le> 1 / 2"
    unfolding rn m_def by (rule round_half_even_error)
  have 8: "\<bar>real n - \<bar>x\<bar> * 100000\<bar> = 1 / 2 \<longrightarrow> even n"
  proof
    assume "\<bar>real n - \<bar>x\<bar> * 100000\<bar> = 1 / 2"
    then have "even m"
      unfolding rn m_def by (rule round_half_even_tie)
    then show "even n"
      using m0 by (simp add: n_def even_nat_iff)
  qed
  show ?thesis
    using 1 2 3 4 5 6 7 8 by blast
qed

lemma getattr_logging_getLevelName:
  "getattr_logging (getLevelName n) =
   (if n \<in> {0, 10, 20, 30, 40, 50} then Some n else None)"
  by (simp add: getLevelName_def getattr_logging_def)

lemma rec_of_fields [simp]:
  "levelno (rec_of l) = level_no l" "formatted (rec_of l) = Inr ''m''"
  "levelname (rec_of l) = level_str l"
  by (simp_all add: rec_of_def levelname_def)

lemma passes_rec_of [simp]: "passes cfg (rec_of l) \<longleftrightarrow> LOGGER_level cfg \<le> level_no l"
  by (simp add: passes_def level_no_ge_handler_level)

lemma tracked_rec_of [simp]:
  "tracked cfg n (rec_of l # recs) =
   (if LOGGER_level cfg \<le> level_no l then replicate n (level_str l) else []) @ tracked cfg n recs"
  by (simp add: tracked_def)

lemma tracked_Nil_simp [simp]: "tracked cfg n [] = []"
  by (simp add: tracked_def)

section \<open>Properties\<close>




text \<open>
  C1 (the code departs from the claim): a request whose handler logs an INFO record and
  then a WARNING record, both tracked, gets a parent entry of severity INFO, while the
  highest tracked level is WARNING. The parent severity is the least tracked level name
  in string order, not the highest level.
\<close>

theorem parent_severity_is_least_name:
  "map severity (TRANSPORT_CHILD (snd (call cfg_self (app_returns [rec_of INFO, rec_of WARNING] 200)
      (req_with None) rnd0 0 0 state0))) = [''INFO'', ''WARNING''] \<and>
   map severity (TRANSPORT_PARENT (snd (call cfg_self (app_returns [rec_of INFO, rec_of WARNING] 200)
      (req_with None) rnd0 0 0 state0))) = [''INFO''] \<and>
   level_str (spec_max_level INFO [WARNING]) = ''WARNING''"
proof -
  have gr: "app_returns [rec_of INFO, rec_of WARNING] 200 (req_with None) =
      ([rec_of INFO, rec_of WARNING], Returns (resp_of 200))"
    by (simp add: app_returns_def resp_of_def)
  have tr: "tracked cfg_self (Suc 0) [rec_of INFO, rec_of WARNING] = [''INFO'', ''WARNING'']"
    by simp
  have fw: "map severity (forwarded cfg_self [h] [rec_of INFO, rec_of WARNING]) =
      [''INFO'', ''WARNING'']" for h
    by (simp add: map_severity_forwarded)
  have ps: "parent_severity [''INFO'', ''WARNING''] c = ''INFO''" for c
    by (simp add: parent_severity_def py_min_def)
  show ?thesis
    unfolding call_returns [where get_response = "app_returns [rec_of INFO, rec_of WARNING] 200"
        and req = "req_with None", OF trace_and_span_self_None gr]
    by (simp add: make_parent_log_parent tr fw ps parent_entry_def spec_max_level_def)
qed

text \<open>
  C2, as stated, fails: when the downstream handler raises, the exception leaves
  \<open>__call__\<close> with the request's handler still registered and no parent entry sent.
\<close>

theorem call_raise_keeps_handler:
  "fst (call cfg_self (app_raises []) (req_with None) rnd0 0 0 state0) =
     Inl (DownstreamError ''boom'') \<and>
   handlers (snd (call cfg_self (app_raises []) (req_with None) rnd0 0 0 state0)) =
     [\<lparr>hid = 0, h_trace = ''projects/p/traces/aaaaaaaaaaaaaaaaaaaaaaaaaaaaaaaa'', h_span = None\<rparr>] \<and>
   TRANSPORT_PARENT (snd (call cfg_self (app_raises []) (req_with None) rnd0 0 0 state0)) = []"
proof -
  have gr: "app_raises [] (req_with None) = ([], Raises ''boom'')"
    by (simp add: app_raises_def)
  show ?thesis
    unfolding call_raises [where get_response = "app_raises []" and req = "req_with None",
        OF trace_and_span_self_None gr] request_handler_eq [OF trace_and_span_self_None]
    by (simp add: random_trace_rnd0 full_trace_def)
qed

text \<open>
  C2, amended: from a state with fresh handler identities, a request whose downstream
  handler returns leaves the handler list as it found it; a request whose downstream
  handler raises passes the exception on, keeps its handler registered and the tracked
  level names in place, and sends no parent entry.
\<close>

theorem call_unregisters_on_return:
  assumes "fresh_ids s"
  shows "(get_response req = (recs, Returns resp) \<longrightarrow>
           fst (call cfg get_response req rnd st now s) = Inr resp \<and>
           handlers (snd (call cfg get_response req rnd st now s)) = handlers s) \<and>
         (get_response req = (recs, Raises e) \<longrightarrow>
           fst (call cfg get_response req rnd st now s) = Inl (DownstreamError e) \<and>
           handlers (snd (call cfg get_response req rnd st now s)) =
             handlers s @ [request_handler cfg req rnd s] \<and>
           MLOGLEVELS (snd (call cfg get_response req rnd st now s)) =
             MLOGLEVELS s @ tracked cfg (Suc (length (handlers s))) recs \<and>
           TRANSPORT_PARENT (snd (call cfg get_response req rnd st now s)) = TRANSPORT_PARENT s)"
proof -
  obtain t sp where tas: "trace_and_span cfg req rnd = Inr (t, sp)"
    using trace_and_span_total by blast
  have hid: "hid (request_handler cfg req rnd s) = next_hid s"
    by (simp add: request_handler_eq [OF tas])
  note add = addHandler_fresh [OF assms hid]
  show ?thesis
  proof (intro conjI impI)
    assume gr: "get_response req = (recs, Returns resp)"
    note c = call_returns [where get_response = get_response and req = req, OF tas gr]
    show "fst (call cfg get_response req rnd st now s) = Inr resp"
      by (simp add: c)
    show "handlers (snd (call cfg get_response req rnd st now s)) = handlers s"
      by (simp add: c add remove1_fresh [OF assms hid])
  next
    assume gr: "get_response req = (recs, Raises e)"
    note c = call_raises [where get_response = get_response and req = req, OF tas gr]
    show "fst (call cfg get_response req rnd st now s) = Inl (DownstreamError e)"
      by (simp add: c)
    show "handlers (snd (call cfg get_response req rnd st now s)) =
             handlers s @ [request_handler cfg req rnd s]"
      by (simp add: c add)
    show "MLOGLEVELS (snd (call cfg get_response req rnd st now s)) =
             MLOGLEVELS s @ tracked cfg (Suc (length (handlers s))) recs"
      by (simp add: c add gr)
    show "TRANSPORT_PARENT (snd (call cfg get_response req rnd st now s)) = TRANSPORT_PARENT s"
      by (simp add: c)
  qed
qed

theorem call_unregisters_on_return_witness:
  "fresh_ids state0 \<and>
   fst (call cfg_self (app_returns [] 200) (req_with None) rnd0 0 0 state0) = Inr (resp_of 200) \<and>
   handlers (snd (call cfg_self (app_returns [] 200) (req_with None) rnd0 0 0 state0)) = [] \<and>
   fst (call cfg_self (app_raises [rec_of ERROR]) (req_with None) rnd0 0 0 state0) =
     Inl (DownstreamError ''boom'') \<and>
   MLOGLEVELS (snd (call cfg_self (app_raises [rec_of ERROR]) (req_with None) rnd0 0 0 state0)) =
     [''ERROR'']"
proof -
  have g1: "app_returns [] 200 (req_with None) = ([], Returns (resp_of 200))"
    by (simp add: app_returns_def resp_of_def)
  have g2: "app_raises [rec_of ERROR] (req_with None) = ([rec_of ERROR], Raises ''boom'')"
    by (simp add: app_raises_def)
  have t: "tracked cfg_self (Suc 0) [rec_of ERROR] = [''ERROR'']"
    by simp
  show ?thesis
    using call_unregisters_on_return [OF fresh_ids_state0, where cfg = cfg_self
        and get_response = "app_returns [] 200" and req = "req_with None" and recs = "[]"
        and resp = "resp_of 200" and rnd = rnd0 and st = 0 and now = 0]
      call_unregisters_on_return [OF fresh_ids_state0, where cfg = cfg_self
        and get_response = "app_raises [rec_of ERROR]" and req = "req_with None"
        and recs = "[rec_of ERROR]" and e = "''boom''" and rnd = rnd0 and st = 0 and now = 0]
    by (simp add: fresh_ids_state0 g1 g2 t)
qed

text \<open>
  C3, as stated, fails: in external-propagation mode the malformed header \<open>x/y/z\<close>
  gives the trace identifier \<open>x\<close> and the span \<open>y\<close>, not a synthesized identifier
  without a span.
\<close>

theorem malformed_header_is_parsed:
  "trace_and_span cfg_ext (req_with (Some ''x/y/z'')) rnd0 = Inr (''x'', Some ''y'') \<and>
   trace_and_span cfg_ext (req_with (Some ''x/y/z'')) rnd0 \<noteq> Inr (random_trace rnd0, None)"
  by (simp add: trace_and_span_def py_index_def)

text \<open>
  C3, amended: in external-propagation mode a present, non-empty header, malformed or
  not, is never rejected and never raises: the trace identifier is the header's text
  before its first slash, and the span is the text after that slash up to the next
  slash or semicolon, or absent when the header has no slash.
\<close>

theorem header_parsed_without_validation:
  assumes "USE_X_HTTP_CLOUD_CONTEXT cfg"
    and "META req ''HTTP_X_CLOUD_TRACE_CONTEXT'' = Some h"
    and "h \<noteq> []"
  shows "trace_and_span cfg req rnd =
     Inr (takeWhile (\<lambda>x. x \<noteq> CHR ''/'') h,
          if CHR ''/'' \<in> set h
          then Some (takeWhile (\<lambda>x. x \<noteq> CHR '';'')
                 (takeWhile (\<lambda>x. x \<noteq> CHR ''/'') (tl (dropWhile (\<lambda>x. x \<noteq> CHR ''/'') h))))
          else None)"
  using assms by (rule trace_and_span_header)

theorem header_parsed_without_validation_witness:
  "USE_X_HTTP_CLOUD_CONTEXT cfg_ext \<and>
   META (req_with (Some ''//;'')) ''HTTP_X_CLOUD_TRACE_CONTEXT'' = Some ''//;'' \<and>
   trace_and_span cfg_ext (req_with (Some ''//;'')) rnd0 = Inr ('''', Some '''')"
  using header_parsed_without_validation [where cfg = cfg_ext and req = "req_with (Some ''//;'')"
      and h = "''//;''" and rnd = rnd0]
  by simp

text \<open>
  C4, as stated, fails: in self-emit mode the header \<open>abc123/456;o=1\<close> does not give
  the trace identifier \<open>abc123\<close> and the span \<open>456\<close>; the identifier is synthesized.
\<close>

theorem header_ignored_in_self_emit_mode:
  "trace_and_span cfg_self (req_with (Some ''abc123/456;o=1'')) rnd0 =
     Inr (''aaaaaaaaaaaaaaaaaaaaaaaaaaaaaaaa'', None) \<and>
   trace_and_span cfg_self (req_with (Some ''abc123/456;o=1'')) rnd0 \<noteq>
     Inr (''abc123'', Some ''456'')"
  by (simp add: trace_and_span_self_None random_trace_rnd0)

text \<open>
  C4, amended: in external-propagation mode the header \<open>abc123/456;o=1\<close> gives the
  trace identifier \<open>abc123\<close> and the span \<open>456\<close>, and the header \<open>abc123\<close> gives the
  trace identifier \<open>abc123\<close> and no span; in either mode an absent header gives a
  synthesized identifier of exactly 32 characters, each a lower-case letter or a digit,
  and no span.
\<close>

theorem trace_header_examples:
  "(USE_X_HTTP_CLOUD_CONTEXT cfg \<and>
      META req ''HTTP_X_CLOUD_TRACE_CONTEXT'' = Some ''abc123/456;o=1'' \<longrightarrow>
      trace_and_span cfg req rnd = Inr (''abc123'', Some ''456'')) \<and>
   (USE_X_HTTP_CLOUD_CONTEXT cfg \<and> META req ''HTTP_X_CLOUD_TRACE_CONTEXT'' = Some ''abc123'' \<longrightarrow>
      trace_and_span cfg req rnd = Inr (''abc123'', None)) \<and>
   (META req ''HTTP_X_CLOUD_TRACE_CONTEXT'' = None \<longrightarrow>
      trace_and_span cfg req rnd = Inr (random_trace rnd, None) \<and>
      length (random_trace rnd) = 32 \<and>
      set (random_trace rnd) \<subseteq> set ''abcdefghijklmnopqrstuvwxyz0123456789'')"
proof (intro conjI impI)
  assume "USE_X_HTTP_CLOUD_CONTEXT cfg \<and>
      META req ''HTTP_X_CLOUD_TRACE_CONTEXT'' = Some ''abc123/456;o=1''"
  then show "trace_and_span cfg req rnd = Inr (''abc123'', Some ''456'')"
    by (simp add: trace_and_span_def py_index_def)
next
  assume "USE_X_HTTP_CLOUD_CONTEXT cfg \<and> META req ''HTTP_X_CLOUD_TRACE_CONTEXT'' = Some ''abc123''"
  then show "trace_and_span cfg req rnd = Inr (''abc123'', None)"
    by (simp add: trace_and_span_def py_index_def)
next
  assume "META req ''HTTP_X_CLOUD_TRACE_CONTEXT'' = None"
  then show "trace_and_span cfg req rnd = Inr (random_trace rnd, None)"
    by (simp add: trace_and_span_random)
next
  show "length (random_trace rnd) = 32"
    by (rule random_trace_length)
next
  have "set chars \<subseteq> set ''abcdefghijklmnopqrstuvwxyz0123456789''"
    by (simp add: chars_def)
  with random_trace_chars [of rnd]
  show "set (random_trace rnd) \<subseteq> set ''abcdefghijklmnopqrstuvwxyz0123456789''"
    by (rule subset_trans)
qed

theorem trace_header_examples_witness:
  "trace_and_span cfg_ext (req_with (Some ''abc123/456;o=1'')) rnd0 = Inr (''abc123'', Some ''456'') \<and>
   trace_and_span cfg_ext (req_with (Some ''abc123'')) rnd0 = Inr (''abc123'', None) \<and>
   trace_and_span cfg_ext (req_with None) rnd0 = Inr (random_trace rnd0, None) \<and>
   length (random_trace rnd0) = 32"
  using trace_header_examples [where cfg = cfg_ext and req = "req_with (Some ''abc123/456;o=1'')"
      and rnd = rnd0]
    trace_header_examples [where cfg = cfg_ext and req = "req_with (Some ''abc123'')"
      and rnd = rnd0]
    trace_header_examples [where cfg = cfg_ext and req = "req_with None" and rnd = rnd0]
  by simp

text \<open>
  C10: in self-emit mode the trace identifier and the span do not depend on the
  request: whatever header it carries, the identifier is the synthesized one, of 32
  characters out of \<open>chars\<close>, and the span is absent. The handler registered for the
  request carries that identifier under the project prefix.
\<close>

theorem self_emit_mode_synthesizes_trace:
  assumes "\<not> USE_X_HTTP_CLOUD_CONTEXT cfg"
  shows "trace_and_span cfg req rnd = Inr (random_trace rnd, None) \<and>
         length (random_trace rnd) = 32 \<and>
         set (random_trace rnd) \<subseteq> set chars \<and>
         h_trace (request_handler cfg req rnd s) =
           ''projects/'' @ PROJECT cfg @ ''/traces/'' @ random_trace rnd \<and>
         h_span (request_handler cfg req rnd s) = None"
proof -
  have tas: "trace_and_span cfg req rnd = Inr (random_trace rnd, None)"
    using assms by (simp add: trace_and_span_random)
  show ?thesis
    by (simp add: tas request_handler_eq [OF tas] random_trace_length random_trace_chars
        full_trace_def)
qed

theorem self_emit_mode_synthesizes_trace_witness:
  "\<not> USE_X_HTTP_CLOUD_CONTEXT cfg_self \<and>
   trace_and_span cfg_self (req_with (Some ''abc123/456;o=1'')) rnd0 =
     Inr (''aaaaaaaaaaaaaaaaaaaaaaaaaaaaaaaa'', None) \<and>
   h_span (request_handler cfg_self (req_with (Some ''abc123/456;o=1'')) rnd0 state0) = None"
  using self_emit_mode_synthesizes_trace [where cfg = cfg_self
      and req = "req_with (Some ''abc123/456;o=1'')" and rnd = rnd0 and s = state0]
  by (simp add: random_trace_rnd0)

text \<open>
  C5, as stated, fails: after a request that logged an ERROR record and whose
  downstream handler raised, a request that logs nothing and returns status 200 gets a
  parent entry of severity ERROR, not INFO.
\<close>

theorem stale_tracker_decides_severity:
  "map severity (TRANSPORT_PARENT (snd (call cfg_self (app_returns [] 200) (req_with None) rnd0 0 0
      (snd (call cfg_self (app_raises [rec_of ERROR]) (req_with None) rnd0 0 0 state0))))) =
   [''ERROR'']"
proof -
  have t: "MLOGLEVELS (snd (call cfg_self (app_raises [rec_of ERROR]) (req_with None) rnd0 0 0
      state0)) = [''ERROR'']"
    by (simp add: call_tracker)
  have p: "TRANSPORT_PARENT (snd (call cfg_self (app_raises [rec_of ERROR]) (req_with None) rnd0
      0 0 state0)) = []"
    by (simp add: call_parent)
  have s: "parent_severity [''ERROR''] c = ''ERROR''" for c
    by (simp add: parent_severity_def py_min_def)
  show ?thesis
    by (simp add: call_parent t p s parent_entry_def)
qed

text \<open>
  C5, amended: when the tracked list is empty as the parent entry is made, the parent
  severity is ERROR for a status of 500 or more, WARNING for a status from 400 to 499
  and INFO otherwise. That is the case for every request none of whose records is
  tracked and that starts with an empty tracked list, and in particular for such a
  request that follows a request whose downstream handler returned; in self-emit mode
  the parent entry sent for it has that severity.
\<close>

theorem parent_severity_from_status:
  "parent_severity [] code =
     (if 500 \<le> code then ''ERROR'' else if 400 \<le> code \<and> code < 500 then ''WARNING''
      else ''INFO'') \<and>
   (MLOGLEVELS s = [] \<and> \<not> USE_X_HTTP_CLOUD_CONTEXT cfg \<longrightarrow>
      TRANSPORT_PARENT (make_parent_log cfg tr sp req st now resp s) =
        TRANSPORT_PARENT s @
        [parent_entry cfg tr sp (parent_severity [] (status_code resp))
           (REQUEST cfg req st now resp)]) \<and>
   (MLOGLEVELS s = [] \<and> \<not> USE_X_HTTP_CLOUD_CONTEXT cfg \<and>
    get_response req = (recs, Returns resp) \<and> (\<forall>r \<in> set recs. \<not> passes cfg r) \<longrightarrow>
      map severity (TRANSPORT_PARENT (snd (call cfg get_response req rnd st now s))) =
        map severity (TRANSPORT_PARENT s) @ [parent_severity [] (status_code resp)]) \<and>
   (\<not> USE_X_HTTP_CLOUD_CONTEXT cfg \<and> get_response' req' = (recs', Returns resp') \<and>
    get_response req = (recs, Returns resp) \<and> (\<forall>r \<in> set recs. \<not> passes cfg r) \<longrightarrow>
      map severity (TRANSPORT_PARENT (snd (call cfg get_response req rnd st now
         (snd (call cfg get_response' req' rnd' st' now' s))))) =
        map severity (TRANSPORT_PARENT (snd (call cfg get_response' req' rnd' st' now' s))) @
        [parent_severity [] (status_code resp)])"
proof (intro conjI impI)
  show "parent_severity [] code =
     (if 500 \<le> code then ''ERROR'' else if 400 \<le> code \<and> code < 500 then ''WARNING''
      else ''INFO'')"
    by (simp add: parent_severity_def)
next
  assume "MLOGLEVELS s = [] \<and> \<not> USE_X_HTTP_CLOUD_CONTEXT cfg"
  then show "TRANSPORT_PARENT (make_parent_log cfg tr sp req st now resp s) =
        TRANSPORT_PARENT s @
        [parent_entry cfg tr sp (parent_severity [] (status_code resp))
           (REQUEST cfg req st now resp)]"
    by (simp add: make_parent_log_parent)
next
  assume a: "MLOGLEVELS s = [] \<and> \<not> USE_X_HTTP_CLOUD_CONTEXT cfg \<and>
    get_response req = (recs, Returns resp) \<and> (\<forall>r \<in> set recs. \<not> passes cfg r)"
  then have "tracked cfg n recs = []" for n
    by (simp add: tracked_none)
  then show "map severity (TRANSPORT_PARENT (snd (call cfg get_response req rnd st now s))) =
        map severity (TRANSPORT_PARENT s) @ [parent_severity [] (status_code resp)]"
    using a by (simp add: call_parent parent_entry_def)
next
  assume a: "\<not> USE_X_HTTP_CLOUD_CONTEXT cfg \<and> get_response' req' = (recs', Returns resp') \<and>
    get_response req = (recs, Returns resp) \<and> (\<forall>r \<in> set recs. \<not> passes cfg r)"
  define s' where "s' = snd (call cfg get_response' req' rnd' st' now' s)"
  have e: "MLOGLEVELS s' = []"
    using a by (simp add: s'_def call_tracker)
  have "tracked cfg n recs = []" for n
    using a by (simp add: tracked_none)
  then have "map severity (TRANSPORT_PARENT (snd (call cfg get_response req rnd st now s'))) =
        map severity (TRANSPORT_PARENT s') @ [parent_severity [] (status_code resp)]"
    using a e by (simp add: call_parent parent_entry_def)
  then show "map severity (TRANSPORT_PARENT (snd (call cfg get_response req rnd st now
         (snd (call cfg get_response' req' rnd' st' now' s))))) =
        map severity (TRANSPORT_PARENT (snd (call cfg get_response' req' rnd' st' now' s))) @
        [parent_severity [] (status_code resp)]"
    by (simp only: s'_def)
qed

theorem parent_severity_from_status_witness:
  "parent_severity [] 200 = ''INFO'' \<and> parent_severity [] 404 = ''WARNING'' \<and>
   parent_severity [] 503 = ''ERROR'' \<and>
   map severity (TRANSPORT_PARENT (make_parent_log cfg_self [] None (req_with None) 0 0
      (resp_of 404) state0)) = [''WARNING''] \<and>
   map severity (TRANSPORT_PARENT (snd (call cfg_self (app_returns [rec_of DEBUG] 503)
      (req_with None) rnd0 0 0 state0))) = [''ERROR''] \<and>
   map severity (TRANSPORT_PARENT (snd (call cfg_self (app_returns [rec_level 25] 200)
      (req_with None) rnd0 0 0
      (snd (call cfg_self (app_returns [rec_of ERROR] 404) (req_with None) rnd0 0 0 state0))))) =
     [''ERROR'', ''INFO'']"
proof -
  have g: "app_returns recs code (req_with None) = (recs, Returns (resp_of code))" for recs code
    by (simp add: app_returns_def resp_of_def)
  have c: "status_code (resp_of k) = k" for k
    by (simp add: resp_of_def)
  have np: "\<not> passes cfg_self (rec_level 25)"
    by (simp add: passes_def levelname_def getattr_logging_getLevelName rec_level_def)
  have 1: "parent_severity [] 200 = ''INFO''"
    using parent_severity_from_status [where code = 200] by simp
  have 2: "parent_severity [] 404 = ''WARNING''"
    using parent_severity_from_status [where code = 404] by simp
  have 3: "parent_severity [] 503 = ''ERROR''"
    using parent_severity_from_status [where code = 503] by simp
  have 4: "map severity (TRANSPORT_PARENT (make_parent_log cfg_self [] None (req_with None) 0 0
      (resp_of 404) state0)) = [''WARNING'']"
    using parent_severity_from_status [where code = 404 and cfg = cfg_self and s = state0
        and tr = "[]" and sp = None and req = "req_with None" and resp = "resp_of 404"
        and st = 0 and now = 0]
    by (simp add: c parent_entry_def)
  have 5: "map severity (TRANSPORT_PARENT (snd (call cfg_self (app_returns [rec_of DEBUG] 503)
      (req_with None) rnd0 0 0 state0))) = [''ERROR'']"
    using parent_severity_from_status [where code = 503 and cfg = cfg_self and s = state0
        and get_response = "app_returns [rec_of DEBUG] 503" and req = "req_with None"
        and recs = "[rec_of DEBUG]" and resp = "resp_of 503" and rnd = rnd0 and st = 0
        and now = 0]
    by (simp add: g c)
  have first: "map severity (TRANSPORT_PARENT (snd (call cfg_self (app_returns [rec_of ERROR] 404)
      (req_with None) rnd0 0 0 state0))) = [''ERROR'']"
    by (simp add: call_parent parent_entry_def parent_severity_def py_min_def)
  have 6: "map severity (TRANSPORT_PARENT (snd (call cfg_self (app_returns [rec_level 25] 200)
      (req_with None) rnd0 0 0
      (snd (call cfg_self (app_returns [rec_of ERROR] 404) (req_with None) rnd0 0 0 state0))))) =
     [''ERROR'', ''INFO'']"
    using parent_severity_from_status [where code = 200 and cfg = cfg_self and s = state0
        and get_response = "app_returns [rec_level 25] 200" and req = "req_with None"
        and recs = "[rec_level 25]" and resp = "resp_of 200" and rnd = rnd0 and st = 0
        and now = 0 and get_response' = "app_returns [rec_of ERROR] 404"
        and req' = "req_with None" and recs' = "[rec_of ERROR]" and resp' = "resp_of 404"
        and rnd' = rnd0 and st' = 0 and now' = 0]
    by (simp add: g c np first)
  show ?thesis
    using 1 2 3 4 5 6 by simp
qed

text \<open>
  C8: \<open>make_parent_log\<close> leaves the tracked list empty in either mode, and so does
  every request whose downstream handler returns, whatever the list held before. When
  the downstream handler of a following request has run, the tracked list holds the
  level names of that request's own records and nothing else.
\<close>

theorem tracker_empty_after_finalization:
  "MLOGLEVELS (make_parent_log cfg tr sp req st now resp s) = [] \<and>
   (get_response req = (recs, Returns resp) \<longrightarrow>
      MLOGLEVELS (snd (call cfg get_response req rnd st now s)) = [] \<and>
      MLOGLEVELS (snd (run_downstream cfg get_response' req'
         (addHandler h' (snd (call cfg get_response req rnd st now s))))) =
        tracked cfg
          (length (handlers (addHandler h' (snd (call cfg get_response req rnd st now s)))))
          (fst (get_response' req')))"
  by (simp add: call_tracker)

theorem tracker_empty_after_finalization_witness:
  "MLOGLEVELS (snd (call cfg_self (app_returns [rec_of ERROR] 200) (req_with None) rnd0 0 0
      state0)) = [] \<and>
   MLOGLEVELS (snd (call cfg_ext (app_returns [rec_of ERROR] 200) (req_with None) rnd0 0 0
      (state0\<lparr>MLOGLEVELS := [''INFO'']\<rparr>))) = []"
proof -
  have g: "app_returns [rec_of ERROR] 200 (req_with None) = ([rec_of ERROR], Returns (resp_of 200))"
    by (simp add: app_returns_def resp_of_def)
  show ?thesis
    using tracker_empty_after_finalization [where cfg = cfg_self and s = state0
        and get_response = "app_returns [rec_of ERROR] 200" and req = "req_with None"
        and recs = "[rec_of ERROR]" and resp = "resp_of 200" and rnd = rnd0 and st = 0
        and now = 0]
      tracker_empty_after_finalization [where cfg = cfg_ext
        and s = "state0\<lparr>MLOGLEVELS := [''INFO'']\<rparr>"
        and get_response = "app_returns [rec_of ERROR] 200" and req = "req_with None"
        and recs = "[rec_of ERROR]" and resp = "resp_of 200" and rnd = rnd0 and st = 0
        and now = 0]
    by (simp add: g)
qed

text \<open>
  C9: in self-emit mode a request whose downstream handler returns adds exactly one
  entry to the parent transport. The entry has no message, and its http request record
  carries the response's status code and a latency that is the float difference of the
  two clock readings printed with five decimals: an optional minus sign, an integer
  part without leading zeros, a point, exactly five digits and the letter \<open>s\<close>, where
  the digits read as a number of hundred-thousandths are the integer nearest to the
  difference times 100000, the even one at a tie. The float difference is the real
  difference of the readings up to one part in \<open>2 ^ 53\<close>.
\<close>

theorem one_parent_entry_in_self_emit_mode:
  assumes "\<not> USE_X_HTTP_CLOUD_CONTEXT cfg"
    and "get_response req = (recs, Returns resp)"
  shows "\<exists>e hr ip fp n.
     TRANSPORT_PARENT (snd (call cfg get_response req rnd st now s)) = TRANSPORT_PARENT s @ [e] \<and>
     message e = None \<and>
     entry_http_request e = Some hr \<and>
     status hr = status_code resp \<and>
     latency hr = (if float_sub now st < 0 then ''-'' else []) @ ip @ ''.'' @ fp @ ''s'' \<and>
     length fp = 5 \<and> set fp \<subseteq> set ''0123456789'' \<and> set ip \<subseteq> set ''0123456789'' \<and>
     ip \<noteq> [] \<and> (hd ip = CHR ''0'' \<longrightarrow> ip = ''0'') \<and>
     decimal_val ip * 100000 + decimal_val fp = n \<and>
     \<bar>real n - \<bar>float_sub now st\<bar> * 100000\<bar> \<le> 1 / 2 \<and>
     (\<bar>real n - \<bar>float_sub now st\<bar> * 100000\<bar> = 1 / 2 \<longrightarrow> even n) \<and>
     \<bar>float_sub now st - (now - st)\<bar> \<le> max (\<bar>now - st\<bar> / 2 ^ 53) (2 powi (- 1075))"
proof -
  obtain ip fp n where f:
    "py_format_5f (float_sub now st) =
       (if float_sub now st < 0 then ''-'' else []) @ ip @ ''.'' @ fp"
    "length fp = 5" "set fp \<subseteq> set ''0123456789''" "set ip \<subseteq> set ''0123456789''"
    "ip \<noteq> []" "hd ip = CHR ''0'' \<longrightarrow> ip = ''0''"
    "decimal_val ip * 100000 + decimal_val fp = n"
    "\<bar>real n - \<bar>float_sub now st\<bar> * 100000\<bar> \<le> 1 / 2"
    "\<bar>real n - \<bar>float_sub now st\<bar> * 100000\<bar> = 1 / 2 \<longrightarrow> even n"
    using py_format_5f_spec [of "float_sub now st"] by blast
  define e where "e = parent_entry cfg (h_trace (request_handler cfg req rnd s))
             (h_span (request_handler cfg req rnd s))
             (parent_severity
                (MLOGLEVELS s @
                 tracked cfg
                   (length (handlers (addHandler (request_handler cfg req rnd s)
                      (s\<lparr>next_hid := Suc (next_hid s)\<rparr>))))
                   (fst (get_response req)))
                (status_code resp))
             (REQUEST cfg req st now resp)"
  have 1: "TRANSPORT_PARENT (snd (call cfg get_response req rnd st now s)) = TRANSPORT_PARENT s @ [e]"
    using assms by (simp add: call_parent e_def)
  have 2: "message e = None" "entry_http_request e = Some (REQUEST cfg req st now resp)"
    by (simp_all add: e_def parent_entry_def)
  have 3: "status (REQUEST cfg req st now resp) = status_code resp"
    by (simp add: REQUEST_def)
  have "latency (REQUEST cfg req st now resp) = py_format_5f (float_sub now st) @ ''s''"
    by (simp add: REQUEST_def)
  then have 4: "latency (REQUEST cfg req st now resp) =
      (if float_sub now st < 0 then ''-'' else []) @ ip @ ''.'' @ fp @ ''s''"
    unfolding f(1) by simp
  have 5: "\<bar>float_sub now st - (now - st)\<bar> \<le> max (\<bar>now - st\<bar> / 2 ^ 53) (2 powi (- 1075))"
    unfolding float_sub_def by (rule round_to_float_error)
  show ?thesis
    using 1 2 3 4 5 f(2-9) by blast
qed

theorem one_parent_entry_in_self_emit_mode_witness:
  "\<not> USE_X_HTTP_CLOUD_CONTEXT cfg_self \<and>
   (\<exists>e hr. TRANSPORT_PARENT (snd (call cfg_self (app_returns [] 200) (req_with None) rnd0
        (1 / 2 ^ 60) (3 / 64) state0)) = [e] \<and>
      message e = None \<and> entry_http_request e = Some hr \<and> status hr = 200 \<and>
      latency hr = ''0.04688s'')"
proof -
  have g: "app_returns [] 200 (req_with None) = ([], Returns (resp_of 200))"
    by (simp add: app_returns_def resp_of_def)
  have c: "status_code (resp_of 200) = 200"
    by (simp add: resp_of_def)
  have n: "\<not> USE_X_HTTP_CLOUD_CONTEXT cfg_self"
    by simp
  have l: "latency (REQUEST cfg_self (req_with None) (1 / 2 ^ 60) (3 / 64) (resp_of 200)) =
      ''0.04688s''"
    by (simp only: REQUEST_def http_request.simps float_sub_example py_format_5f_tie) simp
  from one_parent_entry_in_self_emit_mode [OF n, where get_response = "app_returns [] 200"
      and req = "req_with None", OF g, where rnd = rnd0 and st = "1 / 2 ^ 60" and now = "3 / 64"
      and s = state0]
  obtain e hr where e:
    "TRANSPORT_PARENT (snd (call cfg_self (app_returns [] 200) (req_with None) rnd0
        (1 / 2 ^ 60) (3 / 64) state0)) = TRANSPORT_PARENT state0 @ [e]"
    "message e = None" "entry_http_request e = Some hr" "status hr = status_code (resp_of 200)"
    by blast
  have "TRANSPORT_PARENT (snd (call cfg_self (app_returns [] 200) (req_with None) rnd0
        (1 / 2 ^ 60) (3 / 64) state0)) =
      [parent_entry cfg_self (h_trace (request_handler cfg_self (req_with None) rnd0 state0))
         (h_span (request_handler cfg_self (req_with None) rnd0 state0))
         (parent_severity [] 200)
         (REQUEST cfg_self (req_with None) (1 / 2 ^ 60) (3 / 64) (resp_of 200))]"
    by (simp only: call_parent app_returns_fields outcome.case cfg_self_fields if_False
        state0_fields append_Nil tracked_Nil_simp resp_of_def response.simps)
  with e(1,3) have "hr = REQUEST cfg_self (req_with None) (1 / 2 ^ 60) (3 / 64) (resp_of 200)"
    by (simp add: parent_entry_def)
  with e l c show ?thesis
    by (simp add: n)
qed



end
